theory Spec2Isabelle
  imports Main
begin

section \<open>cdsexec/mockcmd: the test doubles of the Commander interface\<close>

text \<open>
  A shallow embedding of \<^verbatim>\<open>mockcmd/mockcmd.go\<close>: the single-response double
  \<^verbatim>\<open>MockCmd\<close> and the multi-configuration matcher \<^verbatim>\<open>MultiCmdMockCmd\<close>.
  Methods with a pointer receiver take the struct and return their results together
  with the struct as they leave it. Names are those of the source; a method carries
  the name of its receiver type in front, and the fields of \<^verbatim>\<open>CommandConfig\<close> the
  prefix \<open>cfg_\<close>, since \<^verbatim>\<open>MockCmd\<close> has fields of the same names.
\<close>

subsection \<open>Go values\<close>

text \<open>
  A Go slice is either \<^verbatim>\<open>nil\<close> or a sequence of elements; \<^verbatim>\<open>nil\<close> and the empty
  non-nil slice both have length 0, and \<^verbatim>\<open>reflect.DeepEqual\<close> tells them apart.
  \<open>None\<close> is \<^verbatim>\<open>nil\<close>. A Go string is a sequence of bytes, as is \<open>string\<close>; a
  byte is a \<open>char\<close>. A slice of strings is a value here, since nothing writes into
  one. A byte slice is taken in two ways. As a value it is its contents, which is
  what one call of a method returns. In storage it is a header over a backing array
  that other slices may share (see the subsection on backing arrays), which is what
  a call leaves behind for the next. The structs take the representation of a
  non-nil byte slice as the type parameter \<open>'b\<close>, so that the methods that only copy
  byte slices are one definition for both.
\<close>

type_synonym 'a slice = "'a list option"

type_synonym byte = char

definition elems :: "'a slice \<Rightarrow> 'a list" where
  "elems s = (case s of None \<Rightarrow> [] | Some xs \<Rightarrow> xs)"

text \<open>
  The slice that \<^verbatim>\<open>append(s, t...)\<close> returns, as a value: with nothing to add it
  is \<^verbatim>\<open>s\<close> itself (so \<^verbatim>\<open>nil\<close> stays \<^verbatim>\<open>nil\<close>), otherwise a non-nil slice of the
  elements of \<^verbatim>\<open>s\<close> followed by those of \<^verbatim>\<open>t\<close>. What \<^verbatim>\<open>append\<close> writes is in
  \<open>append_mem\<close> below, and \<open>append_mem_bytes\<close> relates the two.
\<close>

definition append :: "'a slice \<Rightarrow> 'a slice \<Rightarrow> 'a slice" where
  "append s t = (if elems t = [] then s else Some (elems s @ elems t))"

text \<open>
  \<^verbatim>\<open>reflect.DeepEqual\<close> on two \<^verbatim>\<open>[]string\<close>: both nil or both non-nil, the same
  length, and corresponding elements equal.
\<close>

fun DeepEqual :: "string slice \<Rightarrow> string slice \<Rightarrow> bool" where
  "DeepEqual None None = True"
| "DeepEqual (Some xs) (Some ys) = (length xs = length ys \<and> list_all2 (=) xs ys)"
| "DeepEqual _ _ = False"

text \<open>\<^verbatim>\<open>strings.Join(elems, sep)\<close>.\<close>

fun Join :: "string list \<Rightarrow> string \<Rightarrow> string" where
  "Join [] sep = []"
| "Join [x] sep = x"
| "Join (x # y # ys) sep = x @ sep @ Join (y # ys) sep"

text \<open>
  The non-nil values of Go's \<^verbatim>\<open>error\<close> that the package handles: its own sentinel
  \<^verbatim>\<open>ErrNoMatchingCommand\<close>, \<^verbatim>\<open>exec.ErrNotFound\<close>, and errors made elsewhere (by
  \<^verbatim>\<open>errors.New\<close> or \<^verbatim>\<open>fmt.Errorf\<close>), which are never identical to the sentinel
  whatever their message. A nil \<^verbatim>\<open>error\<close> is \<open>None\<close>.
\<close>

datatype error = ErrNoMatchingCommand | ErrNotFound | ErrorsNew string

subsection \<open>The single-response double\<close>

text \<open>
  \<^verbatim>\<open>MockCmd\<close>. \<^verbatim>\<open>CheckFunc\<close> is a \<^verbatim>\<open>func(*MockCmd) error\<close>: it receives the
  command by pointer, so besides its verdict it may leave the fields changed. The
  fields it can reach are the record \<open>MockCmd_data\<close>; \<open>MockCmd\<close> adds the function.
\<close>

record ('ctx, 'b) MockCmd_data =
  Stdout :: "'b option"
  Stderr :: "'b option"
  Err :: "error option"
  Ctx :: 'ctx
  Name :: string
  Args :: "string slice"
  Dir :: string
  Env :: "string slice"
  startCalled :: bool
  waitCalled :: bool

record ('ctx, 'b) MockCmd = "('ctx, 'b) MockCmd_data" +
  CheckFunc :: "(('ctx, 'b) MockCmd_data \<Rightarrow> error option \<times> ('ctx, 'b) MockCmd_data) option"

definition store ::
  "('ctx, 'b) MockCmd_data \<Rightarrow> ('ctx, 'b, 'z) MockCmd_scheme \<Rightarrow> ('ctx, 'b, 'z) MockCmd_scheme" where
  "store d m = m\<lparr>Stdout := Stdout d, Stderr := Stderr d, Err := Err d, Ctx := Ctx d,
     Name := Name d, Args := Args d, Dir := Dir d, Env := Env d,
     startCalled := startCalled d, waitCalled := waitCalled d\<rparr>"

text \<open>\<^verbatim>\<open>m.CheckFunc(m)\<close>, for a \<^verbatim>\<open>CheckFunc\<close> that is not nil.\<close>

definition callCheckFunc ::
  "(('ctx, 'b) MockCmd_data \<Rightarrow> error option \<times> ('ctx, 'b) MockCmd_data) \<Rightarrow> ('ctx, 'b, 'z) MockCmd_scheme
     \<Rightarrow> error option \<times> ('ctx, 'b, 'z) MockCmd_scheme" where
  "callCheckFunc f m = (case f (MockCmd_data.truncate m) of (err, d) \<Rightarrow> (err, store d m))"

definition mockCommandContext :: "'ctx \<Rightarrow> string \<Rightarrow> string slice \<Rightarrow> ('ctx, 'b) MockCmd" where
  "mockCommandContext ctx name arg =
     \<lparr>Stdout = None, Stderr = None, Err = None, Ctx = ctx, Name = name, Args = arg,
      Dir = [], Env = None, startCalled = False, waitCalled = False, CheckFunc = None\<rparr>"

definition MockCmd_Run ::
  "('ctx, 'b, 'z) MockCmd_scheme \<Rightarrow> error option \<times> ('ctx, 'b, 'z) MockCmd_scheme" where
  "MockCmd_Run m =
     (case CheckFunc m of
        None \<Rightarrow> (Err m, m)
      | Some f \<Rightarrow>
          (case callCheckFunc f m of
             (Some err, m') \<Rightarrow> (Some err, m')
           | (None, m') \<Rightarrow> (Err m', m')))"

definition MockCmd_Output ::
  "('ctx, 'b, 'z) MockCmd_scheme \<Rightarrow> ('b option \<times> error option) \<times> ('ctx, 'b, 'z) MockCmd_scheme" where
  "MockCmd_Output m =
     (case CheckFunc m of
        None \<Rightarrow> ((Stdout m, Err m), m)
      | Some f \<Rightarrow>
          (case callCheckFunc f m of
             (Some err, m') \<Rightarrow> ((None, Some err), m')
           | (None, m') \<Rightarrow> ((Stdout m', Err m'), m')))"

definition MockCmd_CombinedOutput ::
  "('ctx, byte list, 'z) MockCmd_scheme
     \<Rightarrow> (byte slice \<times> error option) \<times> ('ctx, byte list, 'z) MockCmd_scheme" where
  "MockCmd_CombinedOutput m =
     (case CheckFunc m of
        None \<Rightarrow> ((append (Stdout m) (Stderr m), Err m), m)
      | Some f \<Rightarrow>
          (case callCheckFunc f m of
             (Some err, m') \<Rightarrow> ((None, Some err), m')
           | (None, m') \<Rightarrow> ((append (Stdout m') (Stderr m'), Err m'), m')))"

definition MockCmd_Start ::
  "('ctx, 'b, 'z) MockCmd_scheme \<Rightarrow> error option \<times> ('ctx, 'b, 'z) MockCmd_scheme" where
  "MockCmd_Start m =
     (let m1 = m\<lparr>startCalled := True\<rparr>
      in case CheckFunc m1 of
           Some f \<Rightarrow> callCheckFunc f m1
         | None \<Rightarrow> (Err m1, m1))"

definition MockCmd_Wait ::
  "('ctx, 'b, 'z) MockCmd_scheme \<Rightarrow> error option \<times> ('ctx, 'b, 'z) MockCmd_scheme" where
  "MockCmd_Wait m = (let m1 = m\<lparr>waitCalled := True\<rparr> in (Err m1, m1))"

text \<open>\<^verbatim>\<open>SetDir\<close> and \<^verbatim>\<open>SetEnv\<close>.\<close>

definition SetDir :: "string \<Rightarrow> ('ctx, 'b, 'z) MockCmd_scheme \<Rightarrow> ('ctx, 'b, 'z) MockCmd_scheme" where
  "SetDir dir m = m\<lparr>Dir := dir\<rparr>"

definition SetEnv :: "string slice \<Rightarrow> ('ctx, 'b, 'z) MockCmd_scheme \<Rightarrow> ('ctx, 'b, 'z) MockCmd_scheme" where
  "SetEnv env m = m\<lparr>Env := env\<rparr>"

text \<open>
  The constructors of the single-response double, applied to \<^verbatim>\<open>(ctx, name, arg...)\<close>.
  \<^verbatim>\<open>[]byte(fixedOutput)\<close> is never nil.
\<close>

definition MakeMockCmdWithOutput ::
  "string
     \<Rightarrow> (('ctx, byte list) MockCmd_data \<Rightarrow> error option \<times> ('ctx, byte list) MockCmd_data) option
     \<Rightarrow> 'ctx \<Rightarrow> string \<Rightarrow> string slice \<Rightarrow> ('ctx, byte list) MockCmd" where
  "MakeMockCmdWithOutput fixedOutput checkFunc ctx name arg =
     (mockCommandContext ctx name arg)\<lparr>Stdout := Some fixedOutput, CheckFunc := checkFunc\<rparr>"

definition MakeMockCmdWithOutputGenericError ::
  "(('ctx, 'b) MockCmd_data \<Rightarrow> error option \<times> ('ctx, 'b) MockCmd_data) option
     \<Rightarrow> 'ctx \<Rightarrow> string \<Rightarrow> string slice \<Rightarrow> ('ctx, 'b) MockCmd" where
  "MakeMockCmdWithOutputGenericError checkFunc ctx name arg =
     (mockCommandContext ctx name arg)\<lparr>CheckFunc := checkFunc, Err := Some ErrNotFound\<rparr>"

definition MakeMockCmdWithOutputSpecificError ::
  "string \<Rightarrow> error option
     \<Rightarrow> (('ctx, byte list) MockCmd_data \<Rightarrow> error option \<times> ('ctx, byte list) MockCmd_data) option
     \<Rightarrow> 'ctx \<Rightarrow> string \<Rightarrow> string slice \<Rightarrow> ('ctx, byte list) MockCmd" where
  "MakeMockCmdWithOutputSpecificError fixedOutput specificError checkFunc ctx name arg =
     (mockCommandContext ctx name arg)
       \<lparr>Stdout := Some fixedOutput, CheckFunc := checkFunc, Err := specificError\<rparr>"

definition MakeMockCmd ::
  "('ctx, 'b) MockCmd \<Rightarrow> 'ctx \<Rightarrow> string \<Rightarrow> string slice \<Rightarrow> ('ctx, 'b) MockCmd" where
  "MakeMockCmd c ctx name arg = c"

subsection \<open>The multi-configuration matcher\<close>

record 'b CommandConfig =
  cfg_Name :: string
  cfg_Args :: "string slice"
  cfg_Stdout :: "'b option"
  cfg_Stderr :: "'b option"
  cfg_Err :: "error option"

text \<open>
  \<^verbatim>\<open>MultiCmdMockCmd\<close> embeds \<^verbatim>\<open>MockCmd\<close>. \<^verbatim>\<open>lastMatchedCmd\<close> points to the loop
  variable, a copy of the configuration that matched: it is that copy, or \<open>None\<close>
  for the nil pointer.
\<close>

record ('ctx, 'b) MultiCmdMockCmd = "('ctx, 'b) MockCmd" +
  configs :: "'b CommandConfig list"
  lastMatchedCmd :: "'b CommandConfig option"

text \<open>The condition of the \<^verbatim>\<open>if\<close> in the loop of \<^verbatim>\<open>matchCommand\<close>.\<close>

definition matches :: "string \<Rightarrow> string slice \<Rightarrow> 'b CommandConfig \<Rightarrow> bool" where
  "matches name arg config \<longleftrightarrow> name = cfg_Name config \<and> DeepEqual arg (cfg_Args config)"

text \<open>
  The loop of \<^verbatim>\<open>matchCommand\<close> over the configurations still to visit, with what
  follows the loop as the case of none left.
\<close>

fun matchCommand_scan ::
  "'b CommandConfig list \<Rightarrow> ('ctx, 'b) MultiCmdMockCmd \<Rightarrow> error option \<times> ('ctx, 'b) MultiCmdMockCmd" where
  "matchCommand_scan [] m = (None, m\<lparr>Stderr := None, Err := Some ErrNoMatchingCommand\<rparr>)"
| "matchCommand_scan (config # rest) m =
     (if matches (Name m) (Args m) config
      then (None, m\<lparr>Stdout := cfg_Stdout config, Stderr := cfg_Stderr config,
                     Err := cfg_Err config, lastMatchedCmd := Some config\<rparr>)
      else matchCommand_scan rest m)"

definition matchCommand ::
  "('ctx, 'b) MultiCmdMockCmd \<Rightarrow> error option \<times> ('ctx, 'b) MultiCmdMockCmd" where
  "matchCommand m = matchCommand_scan (configs m) (m\<lparr>lastMatchedCmd := None\<rparr>)"

definition MultiCmdMockCmd_Run ::
  "('ctx, 'b) MultiCmdMockCmd \<Rightarrow> error option \<times> ('ctx, 'b) MultiCmdMockCmd" where
  "MultiCmdMockCmd_Run m =
     (case matchCommand m of
        (Some err, m') \<Rightarrow> (Some err, m')
      | (None, m') \<Rightarrow> (Err m', m'))"

definition MultiCmdMockCmd_Output ::
  "('ctx, 'b) MultiCmdMockCmd \<Rightarrow> ('b option \<times> error option) \<times> ('ctx, 'b) MultiCmdMockCmd" where
  "MultiCmdMockCmd_Output m =
     (case matchCommand m of
        (Some err, m') \<Rightarrow> ((None, Some err), m')
      | (None, m') \<Rightarrow> ((Stdout m', Err m'), m'))"

text \<open>
  \<^verbatim>\<open>CombinedOutput\<close> with byte slices as values: the bytes and the error that one
  call returns. The same method over the backing arrays is
  \<open>MultiCmdMockCmd_CombinedOutput_mem\<close>.
\<close>

definition MultiCmdMockCmd_CombinedOutput ::
  "('ctx, byte list) MultiCmdMockCmd
     \<Rightarrow> (byte slice \<times> error option) \<times> ('ctx, byte list) MultiCmdMockCmd" where
  "MultiCmdMockCmd_CombinedOutput m =
     (case matchCommand m of
        (Some err, m') \<Rightarrow> ((None, Some err), m')
      | (None, m') \<Rightarrow> ((append (Stdout m') (Stderr m'), Err m'), m'))"

text \<open>\<^verbatim>\<open>String\<close>; \<^verbatim>\<open>fmt.Sprintf\<close> with two \<^verbatim>\<open>%s\<close> verbs puts the two strings in place.\<close>

definition MultiCmdMockCmd_String :: "('ctx, 'b) MultiCmdMockCmd \<Rightarrow> string" where
  "MultiCmdMockCmd_String m =
     (case lastMatchedCmd m of
        None \<Rightarrow> ''No matching command found for: '' @ Name m @ '' '' @ Join (elems (Args m)) '' ''
      | Some c \<Rightarrow> ''Matched command: '' @ cfg_Name c @ '' '' @ Join (elems (cfg_Args c)) '' '')"

text \<open>
  \<^verbatim>\<open>MultiCmdMock(configs...)\<close> applied to \<^verbatim>\<open>(ctx, name, arg...)\<close>; every field not
  assigned has its zero value. A call with no arguments after the name passes the
  nil slice.
\<close>

definition MultiCmdMock ::
  "'b CommandConfig list \<Rightarrow> 'ctx \<Rightarrow> string \<Rightarrow> string slice \<Rightarrow> ('ctx, 'b) MultiCmdMockCmd" where
  "MultiCmdMock cfgs ctx name arg =
     \<lparr>Stdout = None, Stderr = None, Err = None, Ctx = ctx, Name = name, Args = arg,
      Dir = [], Env = None, startCalled = False, waitCalled = False, CheckFunc = None,
      configs = cfgs, lastMatchedCmd = None\<rparr>"

subsection \<open>Byte slices over their backing arrays\<close>

text \<open>
  The header of a non-nil byte slice: the backing array (its index in the memory),
  the offset of the first byte in it, the length and the capacity.
\<close>

record bytes_ref =
  arr :: nat
  off :: nat
  len :: nat
  cap :: nat

type_synonym memory = "byte list list"

text \<open>The contents of a slice in a memory, as a value.\<close>

definition bytes_in :: "memory \<Rightarrow> bytes_ref option \<Rightarrow> byte slice" where
  "bytes_in mem s =
     (case s of None \<Rightarrow> None | Some r \<Rightarrow> Some (take (len r) (drop (off r) (mem ! arr r))))"

text \<open>Go keeps every slice within its array: what the proofs ask of a header.\<close>

definition in_bounds :: "memory \<Rightarrow> bytes_ref \<Rightarrow> bool" where
  "in_bounds mem r \<longleftrightarrow> arr r < length mem \<and> len r \<le> cap r \<and> off r + cap r \<le> length (mem ! arr r)"

definition write_at :: "byte list \<Rightarrow> nat \<Rightarrow> byte list \<Rightarrow> byte list" where
  "write_at a i new = take i a @ new @ drop (i + length new) a"

text \<open>
  \<^verbatim>\<open>append(s, t...)\<close> over the arrays. The bytes of \<^verbatim>\<open>t\<close> are read first, as the
  copy inside \<^verbatim>\<open>append\<close> allows the two to overlap. With nothing to add the result
  is \<^verbatim>\<open>s\<close>. With room in the capacity of \<^verbatim>\<open>s\<close> the bytes are written behind its
  length into its own array, where every slice over that array sees them, and the
  result is \<^verbatim>\<open>s\<close> made longer. Otherwise a new array takes the bytes of both; its
  capacity is the runtime's choice, at least its length, and is the length here.
\<close>

definition append_mem ::
  "memory \<Rightarrow> bytes_ref option \<Rightarrow> bytes_ref option \<Rightarrow> bytes_ref option \<times> memory" where
  "append_mem mem s t =
     (let new = elems (bytes_in mem t)
      in if new = [] then (s, mem)
         else case s of
                None \<Rightarrow>
                  (Some \<lparr>arr = length mem, off = 0, len = length new, cap = length new\<rparr>,
                   mem @ [new])
              | Some r \<Rightarrow>
                  if len r + length new \<le> cap r
                  then (Some (r\<lparr>len := len r + length new\<rparr>),
                        mem[arr r := write_at (mem ! arr r) (off r + len r) new])
                  else (let old = elems (bytes_in mem s)
                        in (Some \<lparr>arr = length mem, off = 0, len = length old + length new,
                                   cap = length old + length new\<rparr>,
                            mem @ [old @ new])))"

text \<open>
  \<^verbatim>\<open>CombinedOutput\<close> over the arrays: \<^verbatim>\<open>matchCommand\<close> copies the headers of the
  expectation into the handle, so \<^verbatim>\<open>append(m.Stdout, m.Stderr...)\<close> works on the
  array of the expectation's stdout.
\<close>

definition MultiCmdMockCmd_CombinedOutput_mem ::
  "('ctx, bytes_ref) MultiCmdMockCmd \<times> memory
     \<Rightarrow> (bytes_ref option \<times> error option) \<times> ('ctx, bytes_ref) MultiCmdMockCmd \<times> memory" where
  "MultiCmdMockCmd_CombinedOutput_mem = (\<lambda>(m, mem).
     case matchCommand m of
       (Some err, m') \<Rightarrow> ((None, Some err), (m', mem))
     | (None, m') \<Rightarrow>
         (case append_mem mem (Stdout m') (Stderr m') of
            (out, mem') \<Rightarrow> ((out, Err m'), (m', mem'))))"

text \<open>The same call, with the bytes the caller finds in the slice returned.\<close>

definition CombinedOutput_read ::
  "('ctx, bytes_ref) MultiCmdMockCmd \<times> memory
     \<Rightarrow> (byte slice \<times> error option) \<times> ('ctx, bytes_ref) MultiCmdMockCmd \<times> memory" where
  "CombinedOutput_read s =
     (case MultiCmdMockCmd_CombinedOutput_mem s of
        ((out, err), (m', mem')) \<Rightarrow> ((bytes_in mem' out, err), (m', mem')))"

text \<open>
  The two ways \<^verbatim>\<open>matchCommand\<close> leaves the struct, named for the proofs: the fields
  of a configuration adopted, and the assignments after the loop.
\<close>

definition adopt ::
  "'b CommandConfig \<Rightarrow> ('ctx, 'b) MultiCmdMockCmd \<Rightarrow> ('ctx, 'b) MultiCmdMockCmd" where
  "adopt c m = m\<lparr>Stdout := cfg_Stdout c, Stderr := cfg_Stderr c, Err := cfg_Err c,
     lastMatchedCmd := Some c\<rparr>"

definition unmatched :: "('ctx, 'b) MultiCmdMockCmd \<Rightarrow> ('ctx, 'b) MultiCmdMockCmd" where
  "unmatched m = m\<lparr>Stderr := None, Err := Some ErrNoMatchingCommand\<rparr>"

subsection \<open>Calls in succession\<close>

text \<open>
  The results of \<open>n\<close> calls of one method on one handle, each call starting from the
  struct as the call before left it.
\<close>

fun calls :: "nat \<Rightarrow> ('s \<Rightarrow> 'r \<times> 's) \<Rightarrow> 's \<Rightarrow> 'r list" where
  "calls 0 op s = []"
| "calls (Suc n) op s = (case op s of (r, s') \<Rightarrow> r # calls n op s')"

subsection \<open>Configurations used as concrete inputs\<close>

definition cfg_ls :: "byte list CommandConfig" where
  "cfg_ls = \<lparr>cfg_Name = ''ls'', cfg_Args = Some [''-l''], cfg_Stdout = Some ''file1'',
     cfg_Stderr = None, cfg_Err = None\<rparr>"

definition cfg_rm :: "byte list CommandConfig" where
  "cfg_rm = \<lparr>cfg_Name = ''rm'', cfg_Args = Some [''file2''], cfg_Stdout = Some ''partial'',
     cfg_Stderr = Some ''denied'', cfg_Err = Some (ErrorsNew ''permission denied'')\<rparr>"

definition cfg_rm_later :: "byte list CommandConfig" where
  "cfg_rm_later = \<lparr>cfg_Name = ''rm'', cfg_Args = Some [''file2''], cfg_Stdout = Some ''removed'',
     cfg_Stderr = None, cfg_Err = None\<rparr>"

definition cfg_echo :: "byte list CommandConfig" where
  "cfg_echo = \<lparr>cfg_Name = ''echo'', cfg_Args = Some [''hello''], cfg_Stdout = Some ''hello'',
     cfg_Stderr = Some '' world'', cfg_Err = None\<rparr>"

definition cfg_pwd :: "byte list CommandConfig" where
  "cfg_pwd = \<lparr>cfg_Name = ''pwd'', cfg_Args = Some [], cfg_Stdout = Some ''/'',
     cfg_Stderr = None, cfg_Err = None\<rparr>"

definition cfg_pwd_later :: "byte list CommandConfig" where
  "cfg_pwd_later = \<lparr>cfg_Name = ''pwd'', cfg_Args = None, cfg_Stdout = Some ''/home'',
     cfg_Stderr = None, cfg_Err = None\<rparr>"

text \<open>
  Expectations over shared arrays. In \<open>cfg_overlap\<close>, over an array of six bytes
  \<^verbatim>\<open>buf\<close>, stdout is \<^verbatim>\<open>buf[0:3]\<close> and stderr is \<^verbatim>\<open>buf[2:5]\<close>; in \<open>cfg_fixture\<close>,
  over seven bytes, they are \<^verbatim>\<open>buf[:3]\<close> and \<^verbatim>\<open>buf[4:]\<close>, the two sides of a
  separator. In \<open>cfg_a\<close> and \<open>cfg_b\<close>, over ten bytes, the stdout of the one is
  \<^verbatim>\<open>buf[:5]\<close> and that of the other \<^verbatim>\<open>buf[5:]\<close>, and the stderr of \<open>cfg_a\<close> is an
  array of its own.
\<close>

definition cfg_overlap :: "bytes_ref CommandConfig" where
  "cfg_overlap = \<lparr>cfg_Name = ''x'', cfg_Args = None,
     cfg_Stdout = Some \<lparr>arr = 0, off = 0, len = 3, cap = 6\<rparr>,
     cfg_Stderr = Some \<lparr>arr = 0, off = 2, len = 3, cap = 4\<rparr>, cfg_Err = None\<rparr>"

definition cfg_a :: "bytes_ref CommandConfig" where
  "cfg_a = \<lparr>cfg_Name = ''a'', cfg_Args = None,
     cfg_Stdout = Some \<lparr>arr = 0, off = 0, len = 5, cap = 10\<rparr>,
     cfg_Stderr = Some \<lparr>arr = 1, off = 0, len = 5, cap = 5\<rparr>, cfg_Err = None\<rparr>"

definition cfg_b :: "bytes_ref CommandConfig" where
  "cfg_b = \<lparr>cfg_Name = ''b'', cfg_Args = None,
     cfg_Stdout = Some \<lparr>arr = 0, off = 5, len = 5, cap = 5\<rparr>,
     cfg_Stderr = None, cfg_Err = None\<rparr>"

definition cfg_fixture :: "bytes_ref CommandConfig" where
  "cfg_fixture = \<lparr>cfg_Name = ''x'', cfg_Args = None,
     cfg_Stdout = Some \<lparr>arr = 0, off = 0, len = 3, cap = 7\<rparr>,
     cfg_Stderr = Some \<lparr>arr = 0, off = 4, len = 3, cap = 3\<rparr>, cfg_Err = None\<rparr>"

text \<open>
  A \<^verbatim>\<open>CheckFunc\<close> as in the README: it rejects a command whose name is not the
  expected one and assigns nothing.
\<close>

definition check_name ::
  "string \<Rightarrow> ('ctx, 'b) MockCmd_data \<Rightarrow> error option \<times> ('ctx, 'b) MockCmd_data" where
  "check_name expected d =
     (if Name d \<noteq> expected then (Some (ErrorsNew (''unexpected command: '' @ Name d)), d)
      else (None, d))"

subsection \<open>The scan finds the first matching configuration\<close>

lemmas example_defs =
  cfg_ls_def cfg_rm_def cfg_rm_later_def cfg_echo_def cfg_pwd_def cfg_pwd_later_def
  MultiCmdMock_def

lemma DeepEqual_iff: "DeepEqual a b \<longleftrightarrow> a = b"
  by (cases a; cases b) (auto simp: list_all2_eq [symmetric])

lemma matches_iff: "matches name arg c \<longleftrightarrow> cfg_Name c = name \<and> cfg_Args c = arg"
  by (auto simp: matches_def DeepEqual_iff)

lemma matchCommand_scan_find:
  "matchCommand_scan cfgs m =
     (None, case List.find (matches (Name m) (Args m)) cfgs of
              Some c \<Rightarrow> adopt c m | None \<Rightarrow> unmatched m)"
  by (induction cfgs) (simp_all add: adopt_def unmatched_def)

lemma matchCommand_find:
  "matchCommand m =
     (None, case List.find (matches (Name m) (Args m)) (configs m) of
              Some c \<Rightarrow> adopt c (m\<lparr>lastMatchedCmd := None\<rparr>)
            | None \<Rightarrow> unmatched (m\<lparr>lastMatchedCmd := None\<rparr>))"
  by (simp add: matchCommand_def matchCommand_scan_find)

lemma find_append_if: "List.find P (xs @ ys) = (case List.find P xs of None \<Rightarrow> List.find P ys | Some x \<Rightarrow> Some x)"
  by (induction xs) auto

lemma find_first:
  "i < length xs \<Longrightarrow> P (xs ! i) \<Longrightarrow> \<forall>j<i. \<not> P (xs ! j) \<Longrightarrow> List.find P xs = Some (xs ! i)"
  by (auto simp: find_Some_iff)

lemma find_none: "\<forall>x\<in>set xs. \<not> P x \<Longrightarrow> List.find P xs = None"
  by (simp add: find_None_iff)

lemma Output_eq:
  "MultiCmdMockCmd_Output m = ((Stdout (snd (matchCommand m)), Err (snd (matchCommand m))), snd (matchCommand m))"
  by (simp add: MultiCmdMockCmd_Output_def matchCommand_find)

lemma Run_eq:
  "MultiCmdMockCmd_Run m = (Err (snd (matchCommand m)), snd (matchCommand m))"
  by (simp add: MultiCmdMockCmd_Run_def matchCommand_find)

lemma CombinedOutput_eq:
  "MultiCmdMockCmd_CombinedOutput m =
     ((append (Stdout (snd (matchCommand m))) (Stderr (snd (matchCommand m))), Err (snd (matchCommand m))),
      snd (matchCommand m))"
  by (simp add: MultiCmdMockCmd_CombinedOutput_def matchCommand_find)

lemma matchCommand_matched:
  assumes "i < length (configs m)"
    and "cfg_Name (configs m ! i) = Name m" "cfg_Args (configs m ! i) = Args m"
    and "\<forall>j<i. \<not> (cfg_Name (configs m ! j) = Name m \<and> cfg_Args (configs m ! j) = Args m)"
  shows "snd (matchCommand m) = adopt (configs m ! i) (m\<lparr>lastMatchedCmd := None\<rparr>)"
proof -
  have "List.find (matches (Name m) (Args m)) (configs m) = Some (configs m ! i)"
    using assms by (intro find_first) (simp_all add: matches_iff)
  then show ?thesis by (simp add: matchCommand_find)
qed

lemma matchCommand_unmatched:
  assumes "\<forall>c\<in>set (configs m). \<not> (cfg_Name c = Name m \<and> cfg_Args c = Args m)"
  shows "snd (matchCommand m) = unmatched (m\<lparr>lastMatchedCmd := None\<rparr>)"
proof -
  have "List.find (matches (Name m) (Args m)) (configs m) = None"
    using assms by (intro find_none) (simp add: matches_iff)
  then show ?thesis by (simp add: matchCommand_find)
qed

subsection \<open>Claims about the matcher\<close>

text \<open>
  When the name of an expectation is the invocation's and its argument slice equals
  the invocation's as a Go value, nil-ness included, \<^verbatim>\<open>Output()\<close> returns the stdout
  bytes of the first such expectation together with its error field, nil or not;
  \<open>i\<close> is the position of that expectation.
\<close>

lemma Output_returns_first_match:
  assumes "i < length (configs m)"
    and "cfg_Name (configs m ! i) = Name m" "cfg_Args (configs m ! i) = Args m"
    and "\<forall>j<i. \<not> (cfg_Name (configs m ! j) = Name m \<and> cfg_Args (configs m ! j) = Args m)"
  shows "fst (MultiCmdMockCmd_Output m) = (cfg_Stdout (configs m ! i), cfg_Err (configs m ! i))"
  using matchCommand_matched [OF assms] by (simp add: Output_eq adopt_def)

text \<open>
  At \<^verbatim>\<open>rm file2\<close> the first of two expectations with that pattern carries a
  non-nil error, and its bytes are returned with it.
\<close>

lemma Output_returns_first_match_example:
  "fst (MultiCmdMockCmd_Output (MultiCmdMock [cfg_ls, cfg_rm, cfg_rm_later] () ''rm'' (Some [''file2''])))
     = (Some ''partial'', Some (ErrorsNew ''permission denied''))"
  using Output_returns_first_match
    [of 1 "MultiCmdMock [cfg_ls, cfg_rm, cfg_rm_later] () ''rm'' (Some [''file2''])"]
  by (simp add: example_defs)

text \<open>
  Claim C1. Whenever the invocation equals the pattern of some configured
  expectation, \<^verbatim>\<open>Output()\<close> returns the stdout bytes of the first such expectation
  with its error field. The code does so only when the argument slices also agree
  in being nil: with one expectation for \<^verbatim>\<open>pwd\<close> whose \<^verbatim>\<open>Args\<close> is \<^verbatim>\<open>[]string{}\<close>
  and a call of \<^verbatim>\<open>pwd\<close> with no arguments, names and argument sequences are equal,
  and \<^verbatim>\<open>Output()\<close> returns nil and \<^verbatim>\<open>ErrNoMatchingCommand\<close>, not the stdout of
  the expectation.
\<close>

theorem Output_misses_expectation_with_empty_args:
  "cfg_Name cfg_pwd = ''pwd''
   \<and> elems (cfg_Args cfg_pwd) = elems None
   \<and> fst (MultiCmdMockCmd_Output (MultiCmdMock [cfg_pwd] () ''pwd'' None))
       = (None, Some ErrNoMatchingCommand)
   \<and> fst (MultiCmdMockCmd_Output (MultiCmdMock [cfg_pwd] () ''pwd'' None))
       \<noteq> (cfg_Stdout cfg_pwd, cfg_Err cfg_pwd)"
  by (simp add: example_defs elems_def matches_def Output_eq matchCommand_find unmatched_def)

text \<open>
  Claim C2. When the invocation equals the pattern of no configured expectation,
  \<^verbatim>\<open>Run()\<close>, \<^verbatim>\<open>Output()\<close> and \<^verbatim>\<open>CombinedOutput()\<close> on a handle fresh from the
  factory return \<^verbatim>\<open>ErrNoMatchingCommand\<close>, the two with output return the nil
  slice, which has no bytes, and no expectation is recorded as matched.
\<close>

theorem unmatched_fresh_handle:
  assumes "\<forall>c\<in>set cfgs. \<not> (cfg_Name c = name \<and> cfg_Args c = arg)"
  shows "fst (MultiCmdMockCmd_Run (MultiCmdMock cfgs ctx name arg)) = Some ErrNoMatchingCommand
       \<and> fst (MultiCmdMockCmd_Output (MultiCmdMock cfgs ctx name arg)) = (None, Some ErrNoMatchingCommand)
       \<and> fst (MultiCmdMockCmd_CombinedOutput (MultiCmdMock cfgs ctx name arg))
           = (None, Some ErrNoMatchingCommand)
       \<and> lastMatchedCmd (snd (MultiCmdMockCmd_Output (MultiCmdMock cfgs ctx name arg))) = None"
proof -
  let ?m = "MultiCmdMock cfgs ctx name arg"
  have "\<forall>c\<in>set (configs ?m). \<not> (cfg_Name c = Name ?m \<and> cfg_Args c = Args ?m)"
    using assms by (simp add: MultiCmdMock_def)
  then have "snd (matchCommand ?m) = unmatched (?m\<lparr>lastMatchedCmd := None\<rparr>)"
    by (rule matchCommand_unmatched)
  then show ?thesis
    by (simp add: Run_eq Output_eq CombinedOutput_eq unmatched_def MultiCmdMock_def append_def elems_def)
qed

text \<open>\<^verbatim>\<open>ls -l -a\<close> against an expectation of \<^verbatim>\<open>ls -l\<close>.\<close>

theorem unmatched_fresh_handle_witness:
  "fst (MultiCmdMockCmd_Run (MultiCmdMock [cfg_ls, cfg_rm] () ''ls'' (Some [''-l'', ''-a''])))
       = Some ErrNoMatchingCommand
   \<and> fst (MultiCmdMockCmd_Output (MultiCmdMock [cfg_ls, cfg_rm] () ''ls'' (Some [''-l'', ''-a''])))
       = (None, Some ErrNoMatchingCommand)
   \<and> fst (MultiCmdMockCmd_CombinedOutput (MultiCmdMock [cfg_ls, cfg_rm] () ''ls'' (Some [''-l'', ''-a''])))
       = (None, Some ErrNoMatchingCommand)"
  using unmatched_fresh_handle [of "[cfg_ls, cfg_rm]" "''ls''" "Some [''-l'', ''-a'']" "()"]
  by (simp add: cfg_ls_def cfg_rm_def)

text \<open>
  Claim C3. An invocation and an expectation match if and only if the names are equal
  and the argument sequences are equal element by element, in particular when both
  are empty. The code compares the argument slices with \<^verbatim>\<open>reflect.DeepEqual\<close>,
  which also asks that both be nil or both non-nil (\<open>matches_iff\<close>): an expectation
  written with \<^verbatim>\<open>Args: []string{}\<close> is not matched by a call with no arguments,
  whose variadic parameter is nil, although both sequences are empty; nor is an
  expectation with \<^verbatim>\<open>Args\<close> left unset matched by a call that spreads an empty
  non-nil slice. The same expectation is matched when both slices are non-nil.
\<close>

theorem empty_args_nil_vs_empty_slice:
  "Name (MultiCmdMock [cfg_pwd] () ''pwd'' None) = cfg_Name cfg_pwd
   \<and> elems (Args (MultiCmdMock [cfg_pwd] () ''pwd'' None)) = []
   \<and> elems (cfg_Args cfg_pwd) = []
   \<and> \<not> matches ''pwd'' None cfg_pwd
   \<and> fst (MultiCmdMockCmd_Output (MultiCmdMock [cfg_pwd] () ''pwd'' None))
       = (None, Some ErrNoMatchingCommand)
   \<and> fst (MultiCmdMockCmd_Output (MultiCmdMock [cfg_pwd\<lparr>cfg_Args := None\<rparr>] () ''pwd'' (Some [])))
       = (None, Some ErrNoMatchingCommand)
   \<and> fst (MultiCmdMockCmd_Output (MultiCmdMock [cfg_pwd] () ''pwd'' (Some [])))
       = (Some ''/'', None)"
  by (simp add: example_defs elems_def matches_def Output_eq matchCommand_find unmatched_def
      adopt_def)

lemma find_remove_shadowed:
  assumes "i < j" "j < length xs" "P (xs ! j) \<longrightarrow> P (xs ! i)"
  shows "List.find P (take j xs @ drop (Suc j) xs) = List.find P xs"
proof -
  have split: "xs = take j xs @ xs ! j # drop (Suc j) xs"
    using assms(2) by (rule id_take_nth_drop)
  show ?thesis
  proof (cases "P (xs ! j)")
    case True
    with assms have "P (take j xs ! i)" "i < length (take j xs)" by simp_all
    then have "\<exists>x\<in>set (take j xs). P x" by (metis nth_mem)
    then obtain y where "List.find P (take j xs) = Some y"
      by (cases "List.find P (take j xs)") (auto simp: find_None_iff)
    then have "List.find P (take j xs @ drop (Suc j) xs) = Some y"
      and "List.find P (take j xs @ xs ! j # drop (Suc j) xs) = Some y"
      by (simp_all add: find_append_if)
    with split show ?thesis by simp
  next
    case False
    then have "List.find P (take j xs @ xs ! j # drop (Suc j) xs)
      = List.find P (take j xs @ drop (Suc j) xs)"
      by (simp add: find_append_if split: option.split)
    with split show ?thesis by simp
  qed
qed

lemma matchCommand_MultiCmdMock:
  "snd (matchCommand (MultiCmdMock cfgs ctx name arg)) =
     (case List.find (matches name arg) cfgs of
        Some c \<Rightarrow> adopt c (MultiCmdMock cfgs ctx name arg)
      | None \<Rightarrow> unmatched (MultiCmdMock cfgs ctx name arg))"
  by (simp add: matchCommand_find MultiCmdMock_def split: option.split)

text \<open>
  When the expectations at positions \<open>i < j\<close> have the same name and argument
  slices equal as Go values, and \<open>i\<close> is the first position with them, the factory
  keeps the list as given, an invocation with that name and slice gets the stdout,
  stderr and error of expectation \<open>i\<close>, which is the one recorded as matched, and
  for every invocation the results are those of the list without expectation \<open>j\<close>.
\<close>

lemma duplicate_pattern_first_wins:
  assumes "i < j" "j < length cfgs"
    and "cfg_Name (cfgs ! j) = cfg_Name (cfgs ! i)" "cfg_Args (cfgs ! j) = cfg_Args (cfgs ! i)"
    and "\<forall>k<i. \<not> (cfg_Name (cfgs ! k) = cfg_Name (cfgs ! i) \<and> cfg_Args (cfgs ! k) = cfg_Args (cfgs ! i))"
  shows "configs (MultiCmdMock cfgs ctx (cfg_Name (cfgs ! i)) (cfg_Args (cfgs ! i))) = cfgs
    \<and> fst (MultiCmdMockCmd_Run (MultiCmdMock cfgs ctx (cfg_Name (cfgs ! i)) (cfg_Args (cfgs ! i))))
        = cfg_Err (cfgs ! i)
    \<and> fst (MultiCmdMockCmd_Output (MultiCmdMock cfgs ctx (cfg_Name (cfgs ! i)) (cfg_Args (cfgs ! i))))
        = (cfg_Stdout (cfgs ! i), cfg_Err (cfgs ! i))
    \<and> fst (MultiCmdMockCmd_CombinedOutput (MultiCmdMock cfgs ctx (cfg_Name (cfgs ! i)) (cfg_Args (cfgs ! i))))
        = (append (cfg_Stdout (cfgs ! i)) (cfg_Stderr (cfgs ! i)), cfg_Err (cfgs ! i))
    \<and> lastMatchedCmd (snd (MultiCmdMockCmd_Run
          (MultiCmdMock cfgs ctx (cfg_Name (cfgs ! i)) (cfg_Args (cfgs ! i))))) = Some (cfgs ! i)
    \<and> fst (MultiCmdMockCmd_Run (MultiCmdMock (take j cfgs @ drop (Suc j) cfgs) ctx name arg))
        = fst (MultiCmdMockCmd_Run (MultiCmdMock cfgs ctx name arg))
    \<and> fst (MultiCmdMockCmd_Output (MultiCmdMock (take j cfgs @ drop (Suc j) cfgs) ctx name arg))
        = fst (MultiCmdMockCmd_Output (MultiCmdMock cfgs ctx name arg))
    \<and> fst (MultiCmdMockCmd_CombinedOutput (MultiCmdMock (take j cfgs @ drop (Suc j) cfgs) ctx name arg))
        = fst (MultiCmdMockCmd_CombinedOutput (MultiCmdMock cfgs ctx name arg))"
proof -
  let ?c = "cfgs ! i"
  let ?h = "MultiCmdMock cfgs ctx (cfg_Name ?c) (cfg_Args ?c)"
  have "i < length cfgs" using assms(1,2) by simp
  then have "List.find (matches (cfg_Name ?c) (cfg_Args ?c)) cfgs = Some ?c"
    using assms(5) by (intro find_first) (simp_all add: matches_iff)
  then have first: "snd (matchCommand ?h) = adopt ?c ?h"
    by (simp add: matchCommand_MultiCmdMock)
  have "matches name arg (cfgs ! j) \<longrightarrow> matches name arg (cfgs ! i)"
    using assms(3,4) by (simp add: matches_iff)
  then have same: "List.find (matches name arg) (take j cfgs @ drop (Suc j) cfgs)
      = List.find (matches name arg) cfgs"
    using assms(1,2) by (intro find_remove_shadowed) simp_all
  have c0: "configs ?h = cfgs" by (simp add: MultiCmdMock_def)
  have c1: "fst (MultiCmdMockCmd_Run ?h) = cfg_Err ?c"
    and c2: "fst (MultiCmdMockCmd_Output ?h) = (cfg_Stdout ?c, cfg_Err ?c)"
    and c3: "fst (MultiCmdMockCmd_CombinedOutput ?h) = (append (cfg_Stdout ?c) (cfg_Stderr ?c), cfg_Err ?c)"
    and c4: "lastMatchedCmd (snd (MultiCmdMockCmd_Run ?h)) = Some ?c"
    using first by (simp_all add: Run_eq Output_eq CombinedOutput_eq adopt_def)
  have c5: "fst (MultiCmdMockCmd_Run (MultiCmdMock (take j cfgs @ drop (Suc j) cfgs) ctx name arg))
        = fst (MultiCmdMockCmd_Run (MultiCmdMock cfgs ctx name arg))"
    and c6: "fst (MultiCmdMockCmd_Output (MultiCmdMock (take j cfgs @ drop (Suc j) cfgs) ctx name arg))
        = fst (MultiCmdMockCmd_Output (MultiCmdMock cfgs ctx name arg))"
    and c7: "fst (MultiCmdMockCmd_CombinedOutput (MultiCmdMock (take j cfgs @ drop (Suc j) cfgs) ctx name arg))
        = fst (MultiCmdMockCmd_CombinedOutput (MultiCmdMock cfgs ctx name arg))"
    unfolding Run_eq Output_eq CombinedOutput_eq matchCommand_MultiCmdMock same
    by (simp_all add: adopt_def unmatched_def MultiCmdMock_def split: option.split)
  from c0 c1 c2 c3 c4 c5 c6 c7 show ?thesis by blast
qed

text \<open>Two expectations for \<^verbatim>\<open>rm file2\<close>, at positions 1 and 2.\<close>

lemma duplicate_pattern_first_wins_example:
  "fst (MultiCmdMockCmd_Output (MultiCmdMock [cfg_ls, cfg_rm, cfg_rm_later] () ''rm'' (Some [''file2''])))
     = (Some ''partial'', Some (ErrorsNew ''permission denied''))
   \<and> lastMatchedCmd (snd (MultiCmdMockCmd_Run
        (MultiCmdMock [cfg_ls, cfg_rm, cfg_rm_later] () ''rm'' (Some [''file2''])))) = Some cfg_rm
   \<and> fst (MultiCmdMockCmd_Output (MultiCmdMock [cfg_ls, cfg_rm] () ''rm'' (Some [''file2''])))
     = fst (MultiCmdMockCmd_Output (MultiCmdMock [cfg_ls, cfg_rm, cfg_rm_later] () ''rm'' (Some [''file2''])))"
  using duplicate_pattern_first_wins
    [of 1 2 "[cfg_ls, cfg_rm, cfg_rm_later]" "()" "''rm''" "Some [''file2'']"]
  by (simp add: cfg_ls_def cfg_rm_def cfg_rm_later_def)

text \<open>
  Claim C4. Of two or more expectations with the same pattern an invocation with
  that pattern always adopts the earliest, and the later ones are unreachable. The
  code departs from this where the argument slices of the duplicates differ in being
  nil: of two expectations for \<^verbatim>\<open>pwd\<close> with no arguments, the first written with
  \<^verbatim>\<open>Args: []string{}\<close> and the second with \<^verbatim>\<open>Args\<close> unset, a call of \<^verbatim>\<open>pwd\<close> with
  no arguments adopts the second, and without the second it matches nothing.
\<close>

theorem later_duplicate_adopted:
  "cfg_Name cfg_pwd = cfg_Name cfg_pwd_later
   \<and> elems (cfg_Args cfg_pwd) = elems (cfg_Args cfg_pwd_later)
   \<and> fst (MultiCmdMockCmd_Output (MultiCmdMock [cfg_pwd, cfg_pwd_later] () ''pwd'' None))
       = (Some ''/home'', None)
   \<and> lastMatchedCmd (snd (MultiCmdMockCmd_Output (MultiCmdMock [cfg_pwd, cfg_pwd_later] () ''pwd'' None)))
       = Some cfg_pwd_later
   \<and> fst (MultiCmdMockCmd_Output (MultiCmdMock [cfg_pwd] () ''pwd'' None))
       = (None, Some ErrNoMatchingCommand)"
  by (simp add: example_defs cfg_pwd_later_def elems_def matches_def Output_eq matchCommand_find
      unmatched_def adopt_def)

lemma elems_append: "elems (append s t) = elems s @ elems t"
  by (simp add: append_def elems_def)

text \<open>
  Claim C5. When a call of \<^verbatim>\<open>CombinedOutput()\<close> matched expectation \<open>c\<close>, its
  output is the stdout bytes of \<open>c\<close> followed at once by its stderr bytes.
\<close>

theorem CombinedOutput_stdout_then_stderr:
  assumes "lastMatchedCmd (snd (MultiCmdMockCmd_CombinedOutput m)) = Some c"
  shows "fst (fst (MultiCmdMockCmd_CombinedOutput m)) = append (cfg_Stdout c) (cfg_Stderr c)
    \<and> elems (fst (fst (MultiCmdMockCmd_CombinedOutput m))) = elems (cfg_Stdout c) @ elems (cfg_Stderr c)"
proof (cases "List.find (matches (Name m) (Args m)) (configs m)")
  case None
  with assms show ?thesis
    by (simp add: CombinedOutput_eq matchCommand_find unmatched_def)
next
  case (Some c')
  with assms have "c' = c"
    by (simp add: CombinedOutput_eq matchCommand_find adopt_def)
  with Some show ?thesis
    by (simp add: CombinedOutput_eq matchCommand_find adopt_def elems_append)
qed

text \<open>Stdout \<^verbatim>\<open>hello\<close> and stderr \<^verbatim>\<open> world\<close> give \<^verbatim>\<open>hello world\<close>.\<close>

theorem CombinedOutput_stdout_then_stderr_witness:
  "lastMatchedCmd (snd (MultiCmdMockCmd_CombinedOutput (MultiCmdMock [cfg_ls, cfg_echo] () ''echo'' (Some [''hello'']))))
     = Some cfg_echo
   \<and> fst (MultiCmdMockCmd_CombinedOutput (MultiCmdMock [cfg_ls, cfg_echo] () ''echo'' (Some [''hello''])))
     = (Some ''hello world'', None)"
proof -
  let ?m = "MultiCmdMock [cfg_ls, cfg_echo] () ''echo'' (Some [''hello''])"
  have h: "lastMatchedCmd (snd (MultiCmdMockCmd_CombinedOutput ?m)) = Some cfg_echo"
    by (simp add: CombinedOutput_eq matchCommand_find adopt_def matches_def example_defs)
  have e: "snd (fst (MultiCmdMockCmd_CombinedOutput ?m)) = None"
    by (simp add: CombinedOutput_eq matchCommand_find adopt_def matches_def example_defs)
  from CombinedOutput_stdout_then_stderr [OF h] have
    "fst (fst (MultiCmdMockCmd_CombinedOutput ?m)) = Some ''hello world''"
    by (simp add: cfg_echo_def append_def elems_def)
  with h e show ?thesis by (simp add: prod_eq_iff)
qed

lemma matchCommand_idem: "snd (matchCommand (snd (matchCommand m))) = snd (matchCommand m)"
  by (simp add: matchCommand_find adopt_def unmatched_def split: option.split)

text \<open>
  Claim C6. After \<^verbatim>\<open>Run()\<close>, \<^verbatim>\<open>Output()\<close> or \<^verbatim>\<open>CombinedOutput()\<close> on a handle in
  any state, exactly one of two holds: \<^verbatim>\<open>lastMatchedCmd\<close> is set to a configured
  expectation whose pattern is the invocation's, or the returned error is
  \<^verbatim>\<open>ErrNoMatchingCommand\<close> and \<^verbatim>\<open>lastMatchedCmd\<close> is nil. The two sides of \<open>\<noteq>\<close> are
  truth values, so it says that one holds and the other does not.
\<close>

theorem exactly_one_outcome:
  "((\<exists>c\<in>set (configs m). lastMatchedCmd (snd (MultiCmdMockCmd_Run m)) = Some c
        \<and> cfg_Name c = Name m \<and> cfg_Args c = Args m)
     \<noteq> (fst (MultiCmdMockCmd_Run m) = Some ErrNoMatchingCommand
          \<and> lastMatchedCmd (snd (MultiCmdMockCmd_Run m)) = None))
   \<and> ((\<exists>c\<in>set (configs m). lastMatchedCmd (snd (MultiCmdMockCmd_Output m)) = Some c
        \<and> cfg_Name c = Name m \<and> cfg_Args c = Args m)
     \<noteq> (snd (fst (MultiCmdMockCmd_Output m)) = Some ErrNoMatchingCommand
          \<and> lastMatchedCmd (snd (MultiCmdMockCmd_Output m)) = None))
   \<and> ((\<exists>c\<in>set (configs m). lastMatchedCmd (snd (MultiCmdMockCmd_CombinedOutput m)) = Some c
        \<and> cfg_Name c = Name m \<and> cfg_Args c = Args m)
     \<noteq> (snd (fst (MultiCmdMockCmd_CombinedOutput m)) = Some ErrNoMatchingCommand
          \<and> lastMatchedCmd (snd (MultiCmdMockCmd_CombinedOutput m)) = None))"
proof (cases "List.find (matches (Name m) (Args m)) (configs m)")
  case None
  then show ?thesis
    by (simp add: Run_eq Output_eq CombinedOutput_eq matchCommand_find unmatched_def)
next
  case (Some c)
  then have "c \<in> set (configs m)" "cfg_Name c = Name m" "cfg_Args c = Args m"
    by (auto simp: find_Some_iff matches_iff)
  with Some show ?thesis
    by (simp add: Run_eq Output_eq CombinedOutput_eq matchCommand_find adopt_def)
qed

text \<open>
  An expectation may carry the sentinel as its configured error: the call matches,
  \<^verbatim>\<open>lastMatchedCmd\<close> is set, and the error returned is the sentinel.
\<close>

theorem exactly_one_outcome_witness:
  "lastMatchedCmd (snd (MultiCmdMockCmd_Run (MultiCmdMock
      [cfg_ls\<lparr>cfg_Err := Some ErrNoMatchingCommand\<rparr>] () ''ls'' (Some [''-l''])))) \<noteq> None
   \<and> fst (MultiCmdMockCmd_Run (MultiCmdMock
      [cfg_ls\<lparr>cfg_Err := Some ErrNoMatchingCommand\<rparr>] () ''ls'' (Some [''-l'']))) = Some ErrNoMatchingCommand"
  using exactly_one_outcome
    [of "MultiCmdMock [cfg_ls\<lparr>cfg_Err := Some ErrNoMatchingCommand\<rparr>] () ''ls'' (Some [''-l''])"]
  by (simp add: Run_eq matchCommand_find adopt_def matches_def example_defs)

lemma calls_fixed:
  assumes "\<And>s. fst (op (snd (op s))) = fst (op s)" "\<And>s. snd (op (snd (op s))) = snd (op s)"
  shows "calls n op (snd (op s)) = replicate n (fst (op s))"
proof (induction n)
  case 0
  show ?case by simp
next
  case (Suc n)
  then show ?case using assms [of s] by (simp add: case_prod_unfold)
qed

lemma calls_stable:
  assumes "\<And>s. fst (op (snd (op s))) = fst (op s)" "\<And>s. snd (op (snd (op s))) = snd (op s)"
  shows "calls n op s = replicate n (fst (op s))"
  by (cases n) (simp_all add: case_prod_unfold calls_fixed [OF assms])

text \<open>
  \<^verbatim>\<open>Run()\<close> and \<^verbatim>\<open>Output()\<close> write nothing but the fields of the handle: for a
  handle in any state, with byte slices in either representation, the results of
  \<open>n\<close> calls in succession are all the result of the first.
\<close>

lemma Run_Output_repeated:
  "calls n MultiCmdMockCmd_Run m = replicate n (fst (MultiCmdMockCmd_Run m))
   \<and> calls n MultiCmdMockCmd_Output m = replicate n (fst (MultiCmdMockCmd_Output m))"
proof (intro conjI)
  show "calls n MultiCmdMockCmd_Run m = replicate n (fst (MultiCmdMockCmd_Run m))"
    by (rule calls_stable) (simp_all add: Run_eq matchCommand_idem)
  show "calls n MultiCmdMockCmd_Output m = replicate n (fst (MultiCmdMockCmd_Output m))"
    by (rule calls_stable) (simp_all add: Output_eq matchCommand_idem)
qed

subsection \<open>Calls of \<^verbatim>\<open>CombinedOutput\<close> over the backing arrays\<close>

text \<open>
  The contents of the slice that \<open>append_mem\<close> returns, read in the memory it
  leaves, are the value \<open>append\<close> gives for the contents of the two arguments.
\<close>

lemma write_at_read:
  assumes "i + length new \<le> length a" "o' \<le> i"
  shows "take (i - o' + length new) (drop o' (write_at a i new)) = take (i - o') (drop o' a) @ new"
  using assms by (auto simp: write_at_def drop_take)

lemma append_mem_bytes:
  assumes "\<And>r. s = Some r \<Longrightarrow> in_bounds mem r"
  shows "bytes_in (snd (append_mem mem s t)) (fst (append_mem mem s t))
       = append (bytes_in mem s) (bytes_in mem t)"
proof (cases "elems (bytes_in mem t) = []")
  case True
  then show ?thesis by (simp add: append_mem_def append_def)
next
  case new: False
  show ?thesis
  proof (cases s)
    case None
    with new show ?thesis
      by (simp add: append_mem_def append_def bytes_in_def Let_def) (simp add: elems_def)
  next
    case (Some r)
    then have b: "arr r < length mem" "len r \<le> cap r" "off r + cap r \<le> length (mem ! arr r)"
      using assms by (simp_all add: in_bounds_def)
    show ?thesis
    proof (cases "len r + length (elems (bytes_in mem t)) \<le> cap r")
      case True
      let ?new = "elems (bytes_in mem t)"
      have "take (off r + len r - off r + length ?new) (drop (off r) (write_at (mem ! arr r) (off r + len r) ?new))
          = take (off r + len r - off r) (drop (off r) (mem ! arr r)) @ ?new"
        using True b by (intro write_at_read) simp_all
      then show ?thesis using Some new True b
        by (simp add: append_mem_def append_def bytes_in_def Let_def) (simp add: elems_def)
    next
      case False
      with Some new show ?thesis
        by (simp add: append_mem_def append_def bytes_in_def Let_def)
    qed
  qed
qed

lemma CombinedOutput_mem_eq:
  "MultiCmdMockCmd_CombinedOutput_mem (m, mem) =
     ((fst (append_mem mem (Stdout (snd (matchCommand m))) (Stderr (snd (matchCommand m)))),
       Err (snd (matchCommand m))),
      (snd (matchCommand m),
       snd (append_mem mem (Stdout (snd (matchCommand m))) (Stderr (snd (matchCommand m))))))"
  by (simp add: MultiCmdMockCmd_CombinedOutput_mem_def matchCommand_find split: prod.split)

text \<open>
  One call of \<^verbatim>\<open>CombinedOutput()\<close> over the arrays that matched expectation \<open>c\<close>
  returns the stdout bytes of \<open>c\<close> followed by its stderr bytes, as they are when
  the call is made, whatever storage they share.
\<close>

lemma CombinedOutput_read_matched:
  assumes "lastMatchedCmd (fst (snd (CombinedOutput_read (m, mem)))) = Some c"
    and "\<And>r. cfg_Stdout c = Some r \<Longrightarrow> in_bounds mem r"
  shows "fst (CombinedOutput_read (m, mem))
       = (append (bytes_in mem (cfg_Stdout c)) (bytes_in mem (cfg_Stderr c)), cfg_Err c)"
proof (cases "List.find (matches (Name m) (Args m)) (configs m)")
  case None
  with assms(1) show ?thesis
    by (simp add: CombinedOutput_read_def CombinedOutput_mem_eq matchCommand_find unmatched_def)
next
  case (Some c')
  with assms(1) have "c' = c"
    by (simp add: CombinedOutput_read_def CombinedOutput_mem_eq matchCommand_find adopt_def)
  with Some have m': "Stdout (snd (matchCommand m)) = cfg_Stdout c"
    "Stderr (snd (matchCommand m)) = cfg_Stderr c" "Err (snd (matchCommand m)) = cfg_Err c"
    by (simp_all add: matchCommand_find adopt_def)
  show ?thesis
    using append_mem_bytes [of "cfg_Stdout c" mem "cfg_Stderr c"] assms(2)
    by (simp add: CombinedOutput_read_def CombinedOutput_mem_eq m')
qed

lemmas mem_defs = CombinedOutput_read_def CombinedOutput_mem_eq matchCommand_find adopt_def
  unmatched_def matches_def append_mem_def bytes_in_def write_at_def elems_def Let_def
  MultiCmdMock_def

text \<open>
  Claim C7. Calling the same operation \<open>n\<close> times in succession returns the same
  output bytes and error every time. \<^verbatim>\<open>CombinedOutput()\<close> appends to \<^verbatim>\<open>m.Stdout\<close>,
  which is the slice of the expectation, and so writes the stderr bytes into the
  expectation's array when its capacity has room. With stdout \<^verbatim>\<open>buf[0:3]\<close> and
  stderr \<^verbatim>\<open>buf[2:5]\<close> of \<^verbatim>\<open>abcdef\<close> the first call returns \<^verbatim>\<open>abccde\<close> and the second
  \<^verbatim>\<open>abcccd\<close>; with \<^verbatim>\<open>buf[:3]\<close> and \<^verbatim>\<open>buf[4:]\<close> of \<^verbatim>\<open>out-err\<close> they return
  \<^verbatim>\<open>outerr\<close> and \<^verbatim>\<open>outrrr\<close>.
\<close>

theorem CombinedOutput_twice_differs:
  "calls 2 CombinedOutput_read (MultiCmdMock [cfg_overlap] () ''x'' None, [''abcdef''])
     = [(Some ''abccde'', None), (Some ''abcccd'', None)]
   \<and> calls 2 CombinedOutput_read (MultiCmdMock [cfg_fixture] () ''x'' None, [''out-err''])
     = [(Some ''outerr'', None), (Some ''outrrr'', None)]"
  by (simp add: numeral_2_eq_2 mem_defs cfg_overlap_def cfg_fixture_def)

subsection \<open>The diagnostic string and the context\<close>

text \<open>
  Claim C8 has \<^verbatim>\<open>String()\<close> read \<^verbatim>\<open>matched command: <name> <args>\<close> and
  \<^verbatim>\<open>no matching command found for: <name> <args>\<close>. The format strings of the code
  begin with capital letters, which the package's test looks for.
\<close>

theorem String_lowercase_counterexample:
  "MultiCmdMockCmd_String (snd (MultiCmdMockCmd_Output (MultiCmdMock [cfg_ls] () ''ls'' (Some [''-l''])))) 
     = ''Matched command: ls -l''
   \<and> MultiCmdMockCmd_String (snd (MultiCmdMockCmd_Output (MultiCmdMock [cfg_ls] () ''ls'' (Some [''-l'']))))
     \<noteq> ''matched command: ls -l''
   \<and> MultiCmdMockCmd_String (MultiCmdMock [cfg_ls] () ''cat'' (Some [''file1'']))
     = ''No matching command found for: cat file1''
   \<and> MultiCmdMockCmd_String (MultiCmdMock [cfg_ls] () ''cat'' (Some [''file1'']))
     \<noteq> ''no matching command found for: cat file1''"
  by (simp add: MultiCmdMockCmd_String_def Output_eq matchCommand_find adopt_def matches_def
      elems_def example_defs)

text \<open>
  Claim C8, amended. After \<^verbatim>\<open>Run()\<close>, \<^verbatim>\<open>Output()\<close> or \<^verbatim>\<open>CombinedOutput()\<close> on a
  handle in any state, \<^verbatim>\<open>String()\<close> is \<^verbatim>\<open>Matched command: <name> <args>\<close> when some
  expectation has the invocation's pattern and \<^verbatim>\<open>No matching command found for:
  <name> <args>\<close> when none has, and it is the latter on a handle fresh from the
  factory; \<^verbatim>\<open><args>\<close> is the arguments joined by single spaces.
\<close>

theorem String_after_call:
  assumes "m' \<in> {snd (MultiCmdMockCmd_Run m), snd (MultiCmdMockCmd_Output m),
                  snd (MultiCmdMockCmd_CombinedOutput m)}"
  shows "MultiCmdMockCmd_String m' =
      (if \<exists>c\<in>set (configs m). cfg_Name c = Name m \<and> cfg_Args c = Args m
       then ''Matched command: '' @ Name m @ '' '' @ Join (elems (Args m)) '' ''
       else ''No matching command found for: '' @ Name m @ '' '' @ Join (elems (Args m)) '' '')
    \<and> MultiCmdMockCmd_String (MultiCmdMock cfgs ctx name arg) =
       ''No matching command found for: '' @ name @ '' '' @ Join (elems arg) '' ''"
proof -
  from assms have m': "m' = snd (matchCommand m)"
    by (auto simp: Run_eq Output_eq CombinedOutput_eq)
  have fresh: "MultiCmdMockCmd_String (MultiCmdMock cfgs ctx name arg) =
       ''No matching command found for: '' @ name @ '' '' @ Join (elems arg) '' ''"
    by (simp add: MultiCmdMockCmd_String_def MultiCmdMock_def)
  have "MultiCmdMockCmd_String m' =
      (if \<exists>c\<in>set (configs m). cfg_Name c = Name m \<and> cfg_Args c = Args m
       then ''Matched command: '' @ Name m @ '' '' @ Join (elems (Args m)) '' ''
       else ''No matching command found for: '' @ Name m @ '' '' @ Join (elems (Args m)) '' '')"
  proof (cases "List.find (matches (Name m) (Args m)) (configs m)")
    case None
    then have "\<not> (\<exists>c\<in>set (configs m). cfg_Name c = Name m \<and> cfg_Args c = Args m)"
      by (auto simp: find_None_iff matches_iff)
    with None show ?thesis unfolding m'
      by (simp add: matchCommand_find unmatched_def MultiCmdMockCmd_String_def)
  next
    case (Some c)
    then have c: "c \<in> set (configs m)" "cfg_Name c = Name m" "cfg_Args c = Args m"
      by (auto simp: find_Some_iff matches_iff)
    then have "\<exists>c\<in>set (configs m). cfg_Name c = Name m \<and> cfg_Args c = Args m" by blast
    with Some c show ?thesis unfolding m'
      by (simp add: matchCommand_find adopt_def MultiCmdMockCmd_String_def)
  qed
  with fresh show ?thesis by (rule conjI [rotated])
qed

text \<open>
  A call that matches, then, with the arguments of the handle changed, one that does
  not: the text goes from the first form to the second.
\<close>

theorem String_after_call_witness:
  "MultiCmdMockCmd_String (snd (MultiCmdMockCmd_Run (MultiCmdMock [cfg_ls, cfg_rm] () ''rm'' (Some [''file2''])))) 
     = ''Matched command: rm file2''
   \<and> MultiCmdMockCmd_String (snd (MultiCmdMockCmd_Run
        ((snd (MultiCmdMockCmd_Run (MultiCmdMock [cfg_ls, cfg_rm] () ''rm'' (Some [''file2'']))))
           \<lparr>Args := Some [''file2'', ''-f'']\<rparr>)))
     = ''No matching command found for: rm file2 -f''"
  using String_after_call [of "snd (MultiCmdMockCmd_Run (MultiCmdMock [cfg_ls, cfg_rm] () ''rm'' (Some [''file2''])))"
      "MultiCmdMock [cfg_ls, cfg_rm] () ''rm'' (Some [''file2''])"]
    String_after_call [of "snd (MultiCmdMockCmd_Run
        ((snd (MultiCmdMockCmd_Run (MultiCmdMock [cfg_ls, cfg_rm] () ''rm'' (Some [''file2'']))))
           \<lparr>Args := Some [''file2'', ''-f'']\<rparr>))"
      "(snd (MultiCmdMockCmd_Run (MultiCmdMock [cfg_ls, cfg_rm] () ''rm'' (Some [''file2'']))))
           \<lparr>Args := Some [''file2'', ''-f'']\<rparr>"]
  by (simp add: Run_eq matchCommand_find adopt_def unmatched_def matches_def elems_def
      example_defs MultiCmdMockCmd_String_def)

text \<open>
  The factory stores the context, and handles made from the same expectations, name
  and arguments under two contexts return the same results from \<^verbatim>\<open>Run()\<close>,
  \<^verbatim>\<open>Output()\<close> and \<^verbatim>\<open>CombinedOutput()\<close> and are left in states that differ in the
  context only; the same holds for a handle in any state whose context is replaced.
  \<^verbatim>\<open>Run()\<close>, \<^verbatim>\<open>Output()\<close> and the promoted \<^verbatim>\<open>Start()\<close>, \<^verbatim>\<open>Wait()\<close>, \<^verbatim>\<open>SetDir\<close> and
  \<^verbatim>\<open>SetEnv\<close> leave \<^verbatim>\<open>configs\<close> as it is.
\<close>

lemma context_passes_through:
  "Ctx (MultiCmdMock cfgs c1 name arg) = c1
   \<and> fst (MultiCmdMockCmd_Run (MultiCmdMock cfgs c1 name arg))
       = fst (MultiCmdMockCmd_Run (MultiCmdMock cfgs c2 name arg))
   \<and> fst (MultiCmdMockCmd_Output (MultiCmdMock cfgs c1 name arg))
       = fst (MultiCmdMockCmd_Output (MultiCmdMock cfgs c2 name arg))
   \<and> fst (MultiCmdMockCmd_CombinedOutput (MultiCmdMock cfgs c1 name arg))
       = fst (MultiCmdMockCmd_CombinedOutput (MultiCmdMock cfgs c2 name arg))
   \<and> snd (MultiCmdMockCmd_Run (MultiCmdMock cfgs c2 name arg))
       = (snd (MultiCmdMockCmd_Run (MultiCmdMock cfgs c1 name arg)))\<lparr>Ctx := c2\<rparr>
   \<and> snd (MultiCmdMockCmd_Output (MultiCmdMock cfgs c2 name arg))
       = (snd (MultiCmdMockCmd_Output (MultiCmdMock cfgs c1 name arg)))\<lparr>Ctx := c2\<rparr>
   \<and> snd (MultiCmdMockCmd_CombinedOutput (MultiCmdMock cfgs c2 name arg))
       = (snd (MultiCmdMockCmd_CombinedOutput (MultiCmdMock cfgs c1 name arg)))\<lparr>Ctx := c2\<rparr>
   \<and> fst (MultiCmdMockCmd_Run (m\<lparr>Ctx := c2\<rparr>)) = fst (MultiCmdMockCmd_Run m)
   \<and> fst (MultiCmdMockCmd_Output (m\<lparr>Ctx := c2\<rparr>)) = fst (MultiCmdMockCmd_Output m)
   \<and> fst (MultiCmdMockCmd_CombinedOutput (m\<lparr>Ctx := c2\<rparr>)) = fst (MultiCmdMockCmd_CombinedOutput m)
   \<and> configs (snd (MultiCmdMockCmd_Run m)) = configs m
   \<and> configs (snd (MultiCmdMockCmd_Output m)) = configs m
   \<and> configs (snd (MockCmd_Start m)) = configs m
   \<and> configs (snd (MockCmd_Wait m)) = configs m
   \<and> configs (SetDir dir m) = configs m
   \<and> configs (SetEnv env m) = configs m"
proof -
  have a: "snd (matchCommand (MultiCmdMock cfgs c2 name arg))
      = (snd (matchCommand (MultiCmdMock cfgs c1 name arg)))\<lparr>Ctx := c2\<rparr>"
    unfolding matchCommand_MultiCmdMock
    by (simp add: adopt_def unmatched_def MultiCmdMock_def split: option.split)
  have b: "snd (matchCommand (m\<lparr>Ctx := c2\<rparr>)) = (snd (matchCommand m))\<lparr>Ctx := c2\<rparr>"
    by (simp add: matchCommand_find adopt_def unmatched_def split: option.split)
  have c: "configs (snd (matchCommand m)) = configs m"
    by (simp add: matchCommand_find adopt_def unmatched_def split: option.split)
  have d: "configs (snd (MockCmd_Start m)) = configs m"
    by (simp add: MockCmd_Start_def callCheckFunc_def store_def Let_def split: option.split prod.split)
  have e: "configs (snd (MockCmd_Wait m)) = configs m"
    by (simp add: MockCmd_Wait_def Let_def)
  show ?thesis
    unfolding Run_eq Output_eq CombinedOutput_eq a b
    by (simp add: c d e SetDir_def SetEnv_def) (simp add: MultiCmdMock_def)
qed

text \<open>
  Claim C9. The expectations held by a matcher are never mutated after construction,
  and the context is never consulted. The second half holds
  (\<open>context_passes_through\<close>). The first fails in \<^verbatim>\<open>CombinedOutput()\<close>: with the
  stdout of expectation \<open>a\<close> being \<^verbatim>\<open>buf[:5]\<close> and that of expectation \<open>b\<close> being
  \<^verbatim>\<open>buf[5:]\<close> of \<^verbatim>\<open>helloworld\<close>, a call for \<open>a\<close>, whose stderr is \<^verbatim>\<open>XXXXX\<close>,
  returns \<^verbatim>\<open>helloXXXXX\<close> and leaves the stdout of \<open>b\<close> reading \<^verbatim>\<open>XXXXX\<close>, which
  is what \<^verbatim>\<open>Output()\<close> for \<open>b\<close> then returns.
\<close>

theorem CombinedOutput_overwrites_other_expectation:
  "map (bytes_in [''helloworld'', ''XXXXX''] \<circ> cfg_Stdout) [cfg_a, cfg_b]
     = [Some ''hello'', Some ''world'']
   \<and> fst (CombinedOutput_read (MultiCmdMock [cfg_a, cfg_b] () ''a'' None, [''helloworld'', ''XXXXX'']))
     = (Some ''helloXXXXX'', None)
   \<and> map (bytes_in (snd (snd (CombinedOutput_read
            (MultiCmdMock [cfg_a, cfg_b] () ''a'' None, [''helloworld'', ''XXXXX''])))) \<circ> cfg_Stdout)
        (configs (fst (snd (CombinedOutput_read
            (MultiCmdMock [cfg_a, cfg_b] () ''a'' None, [''helloworld'', ''XXXXX''])))))
     = [Some ''hello'', Some ''XXXXX'']
   \<and> bytes_in (snd (snd (CombinedOutput_read
            (MultiCmdMock [cfg_a, cfg_b] () ''a'' None, [''helloworld'', ''XXXXX'']))))
        (fst (fst (MultiCmdMockCmd_Output (MultiCmdMock [cfg_a, cfg_b] () ''b'' None))))
     = Some ''XXXXX''"
  by (simp add: mem_defs Output_eq cfg_a_def cfg_b_def)

subsection \<open>A claim about the single-response double\<close>

text \<open>
  Claim C10. With a \<^verbatim>\<open>CheckFunc\<close> set, \<^verbatim>\<open>Start()\<close> returns what the function returns
  on the command marked started. When the function returns nil, leaving the fields
  as \<open>d\<close>, \<^verbatim>\<open>Run()\<close>, \<^verbatim>\<open>Output()\<close> and \<^verbatim>\<open>CombinedOutput()\<close> go on to return the
  \<^verbatim>\<open>Err\<close> of \<open>d\<close>: the configured \<^verbatim>\<open>Err\<close> when the function assigned nothing.
\<close>

theorem Start_returns_CheckFunc_result:
  assumes "CheckFunc m = Some f"
  shows "fst (MockCmd_Start m) = fst (f (MockCmd_data.truncate (m\<lparr>startCalled := True\<rparr>)))
    \<and> (f (MockCmd_data.truncate m) = (None, d) \<longrightarrow>
          fst (MockCmd_Run m) = Err d
        \<and> fst (MockCmd_Output m) = (Stdout d, Err d)
        \<and> fst (MockCmd_CombinedOutput m) = (append (Stdout d) (Stderr d), Err d))
    \<and> (f (MockCmd_data.truncate m) = (None, MockCmd_data.truncate m) \<longrightarrow>
          fst (MockCmd_Run m) = Err m
        \<and> fst (MockCmd_Output m) = (Stdout m, Err m)
        \<and> fst (MockCmd_CombinedOutput m) = (append (Stdout m) (Stderr m), Err m))"
  using assms
  by (simp add: MockCmd_Start_def MockCmd_Run_def MockCmd_Output_def MockCmd_CombinedOutput_def
      callCheckFunc_def store_def Let_def MockCmd_data.truncate_def split: prod.split)

text \<open>
  A command with a configured error and a check that passes: \<^verbatim>\<open>Start()\<close> returns
  nil, the other three return the error.
\<close>

theorem Start_returns_CheckFunc_result_witness:
  "fst (MockCmd_Start (MakeMockCmdWithOutputSpecificError ''out'' (Some (ErrorsNew ''boom''))
          (Some (check_name ''expected'')) () ''expected'' None)) = None
   \<and> fst (MockCmd_Run (MakeMockCmdWithOutputSpecificError ''out'' (Some (ErrorsNew ''boom''))
          (Some (check_name ''expected'')) () ''expected'' None)) = Some (ErrorsNew ''boom'')
   \<and> fst (MockCmd_Output (MakeMockCmdWithOutputSpecificError ''out'' (Some (ErrorsNew ''boom''))
          (Some (check_name ''expected'')) () ''expected'' None)) = (Some ''out'', Some (ErrorsNew ''boom''))
   \<and> fst (MockCmd_CombinedOutput (MakeMockCmdWithOutputSpecificError ''out'' (Some (ErrorsNew ''boom''))
          (Some (check_name ''expected'')) () ''expected'' None)) = (Some ''out'', Some (ErrorsNew ''boom''))"
  using Start_returns_CheckFunc_result
    [of "MakeMockCmdWithOutputSpecificError ''out'' (Some (ErrorsNew ''boom''))
          (Some (check_name ''expected'')) () ''expected'' None" "check_name ''expected''"
        "MockCmd_data.truncate (MakeMockCmdWithOutputSpecificError ''out'' (Some (ErrorsNew ''boom''))
          (Some (check_name ''expected'')) () ''expected'' None)"]
  by (simp add: MakeMockCmdWithOutputSpecificError_def mockCommandContext_def check_name_def
      MockCmd_data.truncate_def append_def elems_def)

end
